theory Spec2Isabelle
  imports Complex_Main
begin

section \<open>Data model of optimizer/profiler.py\<close>

text \<open>
  The profiler works on measured floating-point numbers. They are modelled as
  real numbers: rounding, infinities and NaN are outside the model.
\<close>

text \<open>
  Python exceptions that the modelled functions can raise.
  \<open>NoProfiles\<close> is the \<open>Exception("No profiles for node under provided
  configuration")\<close> of \<open>estimate_performance\<close>.
\<close>

datatype error = NoProfiles | AssertionError | KeyError | StopIteration | ZeroDivisionError
  | ValueError | IndexError

text \<open>
  class NodeConfig: the physical configuration of one pipeline node.
\<close>

record NodeConfig =
  name :: string
  num_cpus :: int
  gpu_type :: string
  batch_size :: real
  num_replicas :: int
  cloud :: string

text \<open>
  One row of the profile DataFrame. The columns \<open>gpu_type\<close> and \<open>cloud\<close> carry
  the prefix \<open>row_\<close> to keep them apart from the fields of NodeConfig;
  \<open>mean_throughput_qps\<close> is the column selected by \<open>throughput_field\<close>.
  The DataFrame is a list of rows in index order; index labels are taken to be
  unique, so that a label identifies one row.
\<close>

record profile_row =
  row_gpu_type :: string
  num_cpus_per_replica :: int
  row_cloud :: string
  mean_batch_size :: real
  mean_throughput_qps :: real
  p99_latency :: real
  cost :: real

type_synonym DataFrame = "profile_row list"

text \<open>
  What \<open>estimate_performance\<close> prints: the line
  "Warning: No profiles found with higher batch size than <config>".
\<close>

datatype message = WarningNoHigherBatchSize NodeConfig

section \<open>NodeProfile.prune_profile\<close>

text \<open>
  The boolean mask of one loop iteration of \<open>prune_profile\<close>: the row \<open>p\<close> of
  \<open>pruned\<close> stays when compared with the row \<open>r\<close> of the original profile.
\<close>

definition prune_mask :: "profile_row \<Rightarrow> profile_row \<Rightarrow> bool" where
  "prune_mask r p =
     (mean_throughput_qps p \<ge> mean_throughput_qps r
      \<or> cost p \<le> cost r
      \<or> p99_latency p \<le> p99_latency r)"

text \<open>
  \<open>prune_profile\<close>: iterate over the rows of the original DataFrame, filtering
  the copy \<open>pruned\<close> at every iteration.
\<close>

definition prune_profile :: "DataFrame \<Rightarrow> DataFrame" where
  "prune_profile prof = foldl (\<lambda>pruned r. filter (prune_mask r) pruned) prof prof"

text \<open>
  class NodeProfile; the constructor stores the profile and prunes it.
\<close>

record NodeProfile =
  node_name :: string
  throughput_stage :: string
  profile :: DataFrame

definition NodeProfile_init :: "string \<Rightarrow> DataFrame \<Rightarrow> string \<Rightarrow> NodeProfile" where
  "NodeProfile_init nm prof stage =
     \<lparr>node_name = nm, throughput_stage = stage, profile = prune_profile prof\<rparr>"

section \<open>NodeProfile.estimate_performance and NodeProfile.increase_batch_size\<close>

text \<open>
  The row filter on the resource bundle (gpu_type, num_cpus_per_replica, cloud).
\<close>

definition bundle_match :: "NodeConfig \<Rightarrow> profile_row \<Rightarrow> bool" where
  "bundle_match config r =
     (row_gpu_type r = gpu_type config
      \<and> num_cpus_per_replica r = num_cpus config
      \<and> row_cloud r = cloud config)"

text \<open>
  \<open>resource_bundle_matches\<close>: the filtered DataFrame after
  \<open>sort_values("mean_batch_size")\<close>. Rows with equal batch size keep their table
  order (pandas leaves the order of ties to the sorting algorithm; on tables
  whose batch sizes differ within a bundle every algorithm gives this result).
\<close>

definition resource_bundle_matches :: "DataFrame \<Rightarrow> NodeConfig \<Rightarrow> DataFrame" where
  "resource_bundle_matches prof config =
     sort_key mean_batch_size (filter (bundle_match config) prof)"

text \<open>
  A pandas Series is a list of (label, value) pairs; the label of a row of the
  sorted frame is its position there. \<open>idxmax\<close> and \<open>idxmin\<close> give the label
  of the first occurrence of the greatest and of the least value. The source
  calls them only when the mask has a true entry (\<open>sum(mask) > 0\<close>) and takes
  \<open>None\<close> otherwise; \<open>None\<close> on the empty Series models that test.
\<close>

fun idxmax_from :: "nat \<times> real \<Rightarrow> (nat \<times> real) list \<Rightarrow> nat" where
  "idxmax_from (i, v) [] = i"
| "idxmax_from (i, v) ((j, w) # rest) =
     (if w > v then idxmax_from (j, w) rest else idxmax_from (i, v) rest)"

fun idxmin_from :: "nat \<times> real \<Rightarrow> (nat \<times> real) list \<Rightarrow> nat" where
  "idxmin_from (i, v) [] = i"
| "idxmin_from (i, v) ((j, w) # rest) =
     (if w < v then idxmin_from (j, w) rest else idxmin_from (i, v) rest)"

definition idxmax :: "(nat \<times> real) list \<Rightarrow> nat option" where
  "idxmax series = (case series of [] \<Rightarrow> None | e # es \<Rightarrow> Some (idxmax_from e es))"

definition idxmin :: "(nat \<times> real) list \<Rightarrow> nat option" where
  "idxmin series = (case series of [] \<Rightarrow> None | e # es \<Rightarrow> Some (idxmin_from e es))"

text \<open>
  \<open>frame.loc[i:j]\<close>: the rows from label \<open>i\<close> to label \<open>j\<close>, both included.
\<close>

definition loc_slice :: "nat \<Rightarrow> nat \<Rightarrow> 'a list \<Rightarrow> 'a list" where
  "loc_slice i j frame = take (Suc j - i) (drop i frame)"

text \<open>
  \<open>np.diff\<close>, and the asserted condition \<open>np.all(np.diff(values) > 0)\<close>.
\<close>

fun np_diff :: "real list \<Rightarrow> real list" where
  "np_diff (a # b # rest) = (b - a) # np_diff (b # rest)"
| "np_diff _ = []"

definition all_diff_positive :: "real list \<Rightarrow> bool" where
  "all_diff_positive vs = list_all (\<lambda>d. d > 0) (np_diff vs)"

text \<open>
  \<open>np.interp(x, xp, fp)\<close> for one point \<open>x\<close> and increasing sample points
  \<open>xp\<close>: below the first sample point the first value, above the last one the
  last value; otherwise, with \<open>j\<close> the last index such that \<open>xp[j] <= x\<close>,
  the value \<open>fp[j]\<close> when \<open>xp[j] = x\<close> or \<open>j\<close> is the last index, and
  \<open>slope * (x - xp[j]) + fp[j]\<close> otherwise. No sample points: ValueError.
\<close>

fun interp_points :: "real \<Rightarrow> (real \<times> real) list \<Rightarrow> error + real" where
  "interp_points x [] = Inl ValueError"
| "interp_points x [(x0, y0)] = Inr y0"
| "interp_points x ((x0, y0) # (x1, y1) # rest) =
     (if x < x0 then Inr y0
      else if x < x1 then
        (if x0 = x then Inr y0
         else Inr ((y1 - y0) / (x1 - x0) * (x - x0) + y0))
      else interp_points x ((x1, y1) # rest))"

definition np_interp :: "real \<Rightarrow> real list \<Rightarrow> real list \<Rightarrow> error + real" where
  "np_interp x xp fp = interp_points x (zip xp fp)"

text \<open>
  The branch of \<open>estimate_performance\<close> with only one of glb and lub: the
  values of the one relevant entry, throughput and cost times the replicas.
\<close>

definition boundary_estimate ::
  "profile_row \<Rightarrow> NodeConfig \<Rightarrow> real \<times> real \<times> real" where
  "boundary_estimate relevant_entry config =
     (let estimated_thruput = mean_throughput_qps relevant_entry * of_int (num_replicas config);
          estimated_latency = p99_latency relevant_entry;
          cst = cost relevant_entry * of_int (num_replicas config)
      in (estimated_latency, estimated_thruput, cst))"

text \<open>
  The branch of \<open>estimate_performance\<close> with both glb and lub: the two
  assertions, the two interpolations, and the cost of the first entry.
\<close>

definition interpolated_estimate ::
  "DataFrame \<Rightarrow> NodeConfig \<Rightarrow> error + (real \<times> real \<times> real)" where
  "interpolated_estimate relevant_entries config =
     (if \<not> all_diff_positive (map mean_throughput_qps relevant_entries)
      then Inl AssertionError
      else
        case np_interp (batch_size config)
               (map mean_batch_size relevant_entries)
               (map mean_throughput_qps relevant_entries) of
          Inl e \<Rightarrow> Inl e
        | Inr thru \<Rightarrow>
            (let estimated_thruput = thru * of_int (num_replicas config) in
             if \<not> all_diff_positive (map p99_latency relevant_entries)
             then Inl AssertionError
             else
               case np_interp (batch_size config)
                      (map mean_batch_size relevant_entries)
                      (map p99_latency relevant_entries) of
                 Inl e \<Rightarrow> Inl e
               | Inr estimated_latency \<Rightarrow>
                   (case relevant_entries of
                      [] \<Rightarrow> Inl IndexError
                    | first # _ \<Rightarrow>
                        Inr (estimated_latency, estimated_thruput,
                             cost first * of_int (num_replicas config)))))"

text \<open>
  \<open>estimate_performance\<close> returns the tuple (latency, throughput, cost) or
  raises; the model also returns the lines it prints.
\<close>

definition estimate_performance ::
  "NodeProfile \<Rightarrow> NodeConfig \<Rightarrow> error + ((real \<times> real \<times> real) \<times> message list)" where
  "estimate_performance self config =
     (let rbm = resource_bundle_matches (profile self) config in
      if length rbm = 0 then Inl NoProfiles
      else
        let sizes = enumerate 0 (map mean_batch_size rbm);
            idx_glb = idxmax (filter (\<lambda>(i, b). b \<le> batch_size config) sizes);
            idx_lub = idxmin (filter (\<lambda>(i, b). b \<ge> batch_size config) sizes)
        in case idx_glb of
             None \<Rightarrow>
               (case idx_lub of
                  None \<Rightarrow> Inl AssertionError
                | Some l \<Rightarrow> Inr (boundary_estimate (rbm ! l) config, []))
           | Some g \<Rightarrow>
               (case idx_lub of
                  None \<Rightarrow>
                    Inr (boundary_estimate (rbm ! g) config, [WarningNoHigherBatchSize config])
                | Some l \<Rightarrow>
                    (case interpolated_estimate (loc_slice g l rbm) config of
                       Inl e \<Rightarrow> Inl e
                     | Inr est \<Rightarrow> Inr (est, []))))"

text \<open>
  \<open>increase_batch_size\<close> returns a config or False; False is \<open>None\<close>.
\<close>

definition increase_batch_size :: "NodeProfile \<Rightarrow> NodeConfig \<Rightarrow> NodeConfig option" where
  "increase_batch_size self config =
     (let rbm = resource_bundle_matches (profile self) config;
          lub = filter (\<lambda>(i, b). b \<ge> of_int (\<lfloor>batch_size config\<rfloor> + 1))
                  (enumerate 0 (map mean_batch_size rbm))
      in case idxmin lub of
           None \<Rightarrow> None
         | Some idx_lub \<Rightarrow>
             (let relevant_entry = rbm ! idx_lub
              in Some (config\<lparr>batch_size := mean_batch_size relevant_entry\<rparr>)))"

section \<open>is_valid_pipeline_config\<close>

text \<open>
  \<open>node_configs\<close> is a dict; its items are a list of (name, config) pairs in
  insertion order. \<open>next\<close> on the exhausted iterator raises StopIteration.
\<close>

definition is_valid_pipeline_config :: "(string \<times> NodeConfig) list \<Rightarrow> error + bool" where
  "is_valid_pipeline_config node_configs =
     (case map (\<lambda>(n, c). cloud c) node_configs of
        [] \<Rightarrow> Inl StopIteration
      | first # clouds \<Rightarrow> Inr (list_all (\<lambda>rest. first = rest) clouds))"

section \<open>LogicalDAG and estimate_pipeline_performance_for_config\<close>


definition SINK :: string where "SINK = ''SINK''"












section \<open>Notions used to state the properties\<close>

text \<open>
  The rows of the profile in the resource bundle of a config, in table order,
  and those of them profiled at batch size \<open>b\<close>.
\<close>

definition bundle_rows :: "NodeProfile \<Rightarrow> NodeConfig \<Rightarrow> DataFrame" where
  "bundle_rows self config = filter (bundle_match config) (profile self)"

definition rows_at :: "NodeProfile \<Rightarrow> NodeConfig \<Rightarrow> real \<Rightarrow> DataFrame" where
  "rows_at self config b = filter (\<lambda>r. mean_batch_size r = b) (bundle_rows self config)"





text \<open>
  \<open>is_path_from adj node p\<close>: the list \<open>p\<close> is a path from \<open>node\<close> to SINK along
  the edges of the adjacency list, ending at the first SINK it meets. The
  SOURCE-to-SINK paths are the paths from SOURCE.
\<close>

fun is_path_from :: "(string \<rightharpoonup> string list) \<Rightarrow> string \<Rightarrow> string list \<Rightarrow> bool" where
  "is_path_from adj node [] = False"
| "is_path_from adj node [n] = (n = node \<and> node = SINK)"
| "is_path_from adj node (n # m # rest) =
     (n = node \<and> node \<noteq> SINK
      \<and> (case adj node of None \<Rightarrow> False | Some children \<Rightarrow> m \<in> set children)
      \<and> is_path_from adj m (m # rest))"







section \<open>Example tables\<close>

definition mk_row :: "real \<Rightarrow> real \<Rightarrow> real \<Rightarrow> real \<Rightarrow> profile_row" where
  "mk_row b thru lat cst =
     \<lparr>row_gpu_type = ''k80'', num_cpus_per_replica = 1, row_cloud = ''aws'',
      mean_batch_size = b, mean_throughput_qps = thru, p99_latency = lat, cost = cst\<rparr>"

definition row_a :: profile_row where "row_a = mk_row 1 10 1 1"

definition row_b :: profile_row where "row_b = mk_row 2 10 2 2"

definition row_c :: profile_row where "row_c = mk_row 4 5 3 3"

definition mk_config :: "real \<Rightarrow> int \<Rightarrow> NodeConfig" where
  "mk_config b n =
     \<lparr>name = ''m'', num_cpus = 1, gpu_type = ''k80'', batch_size = b,
      num_replicas = n, cloud = ''aws''\<rparr>"

text \<open>
  Profiles as the constructor builds them. All rows cost the same, so pruning
  drops none of them.
\<close>

definition np_monotonic :: NodeProfile where
  "np_monotonic =
     NodeProfile_init ''m'' [mk_row 20 200 2 1, mk_row 10 100 1 1, mk_row 40 300 4 1] ''thru''"




definition np_two_four :: NodeProfile where
  "np_two_four = NodeProfile_init ''m'' [mk_row 2 20 1 1, mk_row 4 40 2 1] ''thru''"









section \<open>Pruning\<close>

lemma foldl_filter_conv:
  "foldl (\<lambda>pruned r. filter (P r) pruned) acc rs
     = filter (\<lambda>p. list_all (\<lambda>r. P r p) rs) acc"
proof (induction rs arbitrary: acc)
  case Nil
  show ?case by simp
next
  case (Cons r rs)
  have "foldl (\<lambda>pruned r. filter (P r) pruned) acc (r # rs)
          = filter (\<lambda>p. list_all (\<lambda>r. P r p) rs) (filter (P r) acc)"
    using Cons.IH by simp
  also have "\<dots> = filter (\<lambda>p. list_all (\<lambda>r. P r p) (r # rs)) acc"
    by (simp add: conj_commute)
  finally show ?case .
qed

lemma prune_profile_filter:
  "prune_profile prof = filter (\<lambda>p. list_all (\<lambda>r. prune_mask r p) prof) prof"
  unfolding prune_profile_def by (rule foldl_filter_conv)

lemma set_prune_profile_subset: "set (prune_profile prof) \<subseteq> set prof"
  by (auto simp: prune_profile_filter)

text \<open>
  C1 (as stated, refuted). The spec drops row i when another row j has
  j.throughput >= i.throughput, j.cost <= i.cost and j.latency <= i.latency.
  \<open>row_a\<close> is such a row j for \<open>row_b\<close>, yet \<open>prune_profile\<close> keeps \<open>row_b\<close>.
\<close>

theorem prune_keeps_tied_row_counterexample:
  "prune_profile [row_a, row_b] = [row_a, row_b]
   \<and> row_a \<noteq> row_b
   \<and> mean_throughput_qps row_a \<ge> mean_throughput_qps row_b
   \<and> cost row_a \<le> cost row_b
   \<and> p99_latency row_a \<le> p99_latency row_b"
  by (simp add: prune_profile_def prune_mask_def row_a_def row_b_def mk_row_def)

text \<open>
  C1 (amended). \<open>prune_profile\<close> keeps the rows of the table in their order,
  and keeps row p exactly when, for every row r of the whole table (whatever its
  resource bundle), p has throughput >= r's, or cost <= r's, or latency <= r's.
  Equivalently, p is dropped exactly when some row r of the table is strictly
  better on all three: higher throughput, lower cost and lower latency.
\<close>

theorem prune_profile_retains:
  "prune_profile prof = filter (\<lambda>p. list_all (\<lambda>r. prune_mask r p) prof) prof
   \<and> (p \<in> set (prune_profile prof) \<longleftrightarrow>
        p \<in> set prof \<and>
        (\<forall>r \<in> set prof. mean_throughput_qps p \<ge> mean_throughput_qps r
                          \<or> cost p \<le> cost r \<or> p99_latency p \<le> p99_latency r))
   \<and> (p \<in> set prof \<and> p \<notin> set (prune_profile prof) \<longleftrightarrow>
        (p \<in> set prof \<and>
         (\<exists>r \<in> set prof. mean_throughput_qps r > mean_throughput_qps p
                          \<and> cost r < cost p \<and> p99_latency r < p99_latency p)))"
proof -
  have keep: "p \<in> set (prune_profile prof) \<longleftrightarrow>
        p \<in> set prof \<and> (\<forall>r \<in> set prof. prune_mask r p)"
    by (simp add: prune_profile_filter list_all_iff)
  have "(\<not> (\<forall>r \<in> set prof. prune_mask r p)) \<longleftrightarrow>
        (\<exists>r \<in> set prof. mean_throughput_qps r > mean_throughput_qps p
                          \<and> cost r < cost p \<and> p99_latency r < p99_latency p)"
    by (auto simp: prune_mask_def not_le)
  with keep show ?thesis
    by (auto simp: prune_profile_filter prune_mask_def)
qed

theorem prune_profile_retains_witness:
  "prune_profile [row_a, row_c] = [row_a]
   \<and> row_a \<in> set (prune_profile [row_a, row_c])
   \<and> row_c \<notin> set (prune_profile [row_a, row_c])
   \<and> mean_throughput_qps row_a > mean_throughput_qps row_c
   \<and> cost row_a < cost row_c \<and> p99_latency row_a < p99_latency row_c"
  using prune_profile_retains [of "[row_a, row_c]" row_c]
    prune_profile_retains [of "[row_a, row_c]" row_a]
  by (simp add: prune_mask_def row_a_def row_c_def mk_row_def)

text \<open>
  C8. Pruning is idempotent: pruning the pruned table removes no further row.
\<close>

theorem prune_profile_idempotent:
  "prune_profile (prune_profile prof) = prune_profile prof"
proof -
  have "filter (\<lambda>p. list_all (\<lambda>r. prune_mask r p) (prune_profile prof)) (prune_profile prof)
          = prune_profile prof"
  proof (rule filter_True, rule ballI)
    fix p assume p: "p \<in> set (prune_profile prof)"
    then have "\<forall>r \<in> set prof. prune_mask r p"
      by (simp add: prune_profile_filter list_all_iff)
    with set_prune_profile_subset [of prof]
    show "list_all (\<lambda>r. prune_mask r p) (prune_profile prof)"
      by (auto simp: list_all_iff)
  qed
  then show ?thesis
    by (subst prune_profile_filter) simp
qed

section \<open>Index search and slicing on the sorted frame\<close>









lemma snd_in_set_filter_enumerate:
  "(j, w) \<in> set (filter (\<lambda>(i, b). Pr b) (enumerate n xs)) \<Longrightarrow> w \<in> set xs \<and> Pr w"
  by (auto simp: in_set_enumerate_eq)













section \<open>The branches of estimate_performance\<close>











lemma rbm_set: "set (resource_bundle_matches (profile self) config) = set (bundle_rows self config)"
  by (simp add: resource_bundle_matches_def bundle_rows_def)











section \<open>estimate_performance: cases, errors, interpolation\<close>

lemmas example_defs =
  NodeProfile_init_def prune_profile_def prune_mask_def mk_row_def mk_config_def
  bundle_rows_def rows_at_def bundle_match_def

lemmas estimate_defs =
  estimate_performance_def resource_bundle_matches_def idxmax_def idxmin_def loc_slice_def
  interpolated_estimate_def all_diff_positive_def np_interp_def boundary_estimate_def














section \<open>is_valid_pipeline_config, replica scaling, increase_batch_size\<close>

text \<open>
  C10. On the empty configuration map \<open>is_valid_pipeline_config\<close> returns no
  boolean: it raises StopIteration, because the iterator over the clouds is
  advanced once before any comparison. On a map with at least one stage config
  it returns whether every other config has the cloud of the first one.
\<close>

theorem is_valid_pipeline_config_empty_raises:
  "is_valid_pipeline_config [] = Inl StopIteration
   \<and> is_valid_pipeline_config ((n, c) # rest)
       = Inr (list_all (\<lambda>(n', c'). cloud c = cloud c') rest)"
  by (simp add: is_valid_pipeline_config_def list_all_iff split_beta)

lemma boundary_estimate_replicas:
  "boundary_estimate r (config\<lparr>num_replicas := k\<rparr>)
     = (p99_latency r, mean_throughput_qps r * of_int k, cost r * of_int k)"
  by (simp add: boundary_estimate_def)

lemma interpolated_estimate_replicas:
  "interpolated_estimate rows (config\<lparr>num_replicas := k\<rparr>)
     = (case interpolated_estimate rows (config\<lparr>num_replicas := 1\<rparr>) of
          Inl e \<Rightarrow> Inl e
        | Inr (lat, thru, cst) \<Rightarrow> Inr (lat, thru * of_int k, cst * of_int k))"
  by (simp add: interpolated_estimate_def split: sum.splits list.splits)

lemma rbm_replicas:
  "resource_bundle_matches prof (config\<lparr>num_replicas := k\<rparr>) = resource_bundle_matches prof config"
proof -
  have "bundle_match (config\<lparr>num_replicas := k\<rparr>) = bundle_match config"
    by (rule ext) (simp add: bundle_match_def)
  then show ?thesis by (simp add: resource_bundle_matches_def)
qed

lemma estimate_performance_replicas:
  "estimate_performance self (config\<lparr>num_replicas := k\<rparr>)
     = (case estimate_performance self (config\<lparr>num_replicas := 1\<rparr>) of
          Inl e \<Rightarrow> Inl e
        | Inr ((lat, thru, cst), msgs) \<Rightarrow>
            Inr ((lat, thru * of_int k, cst * of_int k),
                 map (\<lambda>m. WarningNoHigherBatchSize (config\<lparr>num_replicas := k\<rparr>)) msgs))"
  unfolding estimate_performance_def rbm_replicas Let_def
  by (simp add: boundary_estimate_replicas interpolated_estimate_replicas [where config = config and k = k]
      split: option.splits sum.splits)

text \<open>
  C7. If \<open>estimate_performance\<close> succeeds on a config, then on the config with
  twice the replicas (all other fields unchanged) it returns twice the
  throughput, twice the cost and the same latency. In general the call
  succeeds for every replica count, with throughput and cost a fixed
  per-replica value times the replica count and latency independent of it.
\<close>

theorem replica_scaling:
  assumes "estimate_performance self config = Inr ((lat, thru, cst), msgs)"
  shows "(\<exists>msgs'. estimate_performance self (config\<lparr>num_replicas := 2 * num_replicas config\<rparr>)
                     = Inr ((lat, 2 * thru, 2 * cst), msgs'))
         \<and> (\<exists>thru1 cst1. \<forall>k. \<exists>msgs'.
               estimate_performance self (config\<lparr>num_replicas := k\<rparr>)
                 = Inr ((lat, thru1 * of_int k, cst1 * of_int k), msgs'))"
proof -
  have c: "config = config\<lparr>num_replicas := num_replicas config\<rparr>" by simp
  from assms have "estimate_performance self (config\<lparr>num_replicas := num_replicas config\<rparr>)
                     = Inr ((lat, thru, cst), msgs)"
    by simp
  then obtain thru1 cst1 msgs1 where
    one: "estimate_performance self (config\<lparr>num_replicas := 1\<rparr>) = Inr ((lat, thru1, cst1), msgs1)"
    and t: "thru = thru1 * of_int (num_replicas config)"
    and cc: "cst = cst1 * of_int (num_replicas config)"
    by (subst (asm) estimate_performance_replicas) (auto split: sum.splits prod.splits)
  have all: "\<exists>msgs'. estimate_performance self (config\<lparr>num_replicas := k\<rparr>)
                 = Inr ((lat, thru1 * of_int k, cst1 * of_int k), msgs')" for k
    by (subst estimate_performance_replicas) (simp add: one)
  from all [of "2 * num_replicas config"] t cc
  have "\<exists>msgs'. estimate_performance self (config\<lparr>num_replicas := 2 * num_replicas config\<rparr>)
                     = Inr ((lat, 2 * thru, 2 * cst), msgs')"
    by (simp add: mult.commute mult.left_commute)
  with all show ?thesis by blast
qed

theorem replica_scaling_witness:
  "estimate_performance np_monotonic (mk_config 15 3) = Inr ((3 / 2, 450, 3), [])
   \<and> (\<exists>msgs'. estimate_performance np_monotonic
                  ((mk_config 15 3)\<lparr>num_replicas := 2 * num_replicas (mk_config 15 3)\<rparr>)
                = Inr ((3 / 2, 2 * 450, 2 * 3), msgs'))"
proof -
  have 1: "estimate_performance np_monotonic (mk_config 15 3) = Inr ((3 / 2, 450, 3), [])"
    by (simp add: np_monotonic_def example_defs estimate_defs)
  from replica_scaling [OF 1] 1 show ?thesis by blast
qed

lemma idxmin_from_value:
  "(idxmin_from (i, v) es, Min (insert v (snd ` set es))) \<in> set ((i, v) # es)"
proof (induction es arbitrary: i v)
  case Nil
  show ?case by simp
next
  case (Cons a es)
  obtain j w where a: "a = (j, w)" by (cases a)
  let ?S = "snd ` set es"
  have fin: "finite ?S" by simp
  show ?case
  proof (cases "w < v")
    case True
    have le: "Min (insert w ?S) \<le> w" using fin by simp
    have "min v (Min (insert w ?S)) = Min (insert w ?S)"
      by (rule min_absorb2) (use le True in linarith)
    moreover have "Min (insert v (insert w ?S)) = min v (Min (insert w ?S))"
      using fin by simp
    ultimately have "Min (insert v (insert w ?S)) = Min (insert w ?S)"
      by (rule_tac trans)
    moreover have "idxmin_from (i, v) (a # es) = idxmin_from (j, w) es"
      using True a by simp
    moreover have "snd ` set (a # es) = insert w ?S" using a by simp
    ultimately show ?thesis using Cons.IH [of j w] a by (simp only: set_simps) blast
  next
    case False
    have le: "Min (insert v ?S) \<le> v" using fin by simp
    have "min w (Min (insert v ?S)) = Min (insert v ?S)"
      by (rule min_absorb2) (use le False in linarith)
    moreover have "Min (insert w (insert v ?S)) = min w (Min (insert v ?S))"
      using fin by simp
    ultimately have "Min (insert w (insert v ?S)) = Min (insert v ?S)"
      by (rule_tac trans)
    then have "Min (insert v (insert w ?S)) = Min (insert v ?S)"
      by (simp only: insert_commute [of v w])
    moreover have "idxmin_from (i, v) (a # es) = idxmin_from (i, v) es"
      using False a by simp
    moreover have "snd ` set (a # es) = insert w ?S" using a by simp
    ultimately show ?thesis using Cons.IH [of i v] by (simp only: set_simps) blast
  qed
qed

lemma idxmin_value:
  assumes "idxmin series = Some k"
  shows "(k, Min (snd ` set series)) \<in> set series"
proof (cases series)
  case Nil
  with assms show ?thesis by (simp add: idxmin_def)
next
  case (Cons e es)
  obtain i v where e: "e = (i, v)" by (cases e)
  from assms Cons e have k: "k = idxmin_from (i, v) es" by (simp add: idxmin_def)
  have "snd ` set series = insert v (snd ` set es)" using Cons e by simp
  with idxmin_from_value [of i v es] k Cons e show ?thesis by simp
qed

lemma idxmin_None: "idxmin series = None \<longleftrightarrow> series = []"
  by (cases series) (auto simp: idxmin_def)


text \<open>
  C4 (as stated, refuted). With batch sizes 2 and 4 profiled and a config of
  batch size 1, floor(1) + 1 = 2; the smallest profiled batch size strictly
  greater than 2 is 4, but \<open>increase_batch_size\<close> returns batch size 2.
\<close>

theorem increase_batch_size_not_strict_counterexample:
  "increase_batch_size np_two_four (mk_config 1 1) = Some (mk_config 2 1)
   \<and> real_of_int (\<lfloor>batch_size (mk_config 1 1)\<rfloor> + 1) = batch_size (mk_config 2 1)
   \<and> mk_row 4 40 2 1 \<in> set (bundle_rows np_two_four (mk_config 1 1))"
  by (simp add: increase_batch_size_def np_two_four_def example_defs estimate_defs)

text \<open>
  C4 (amended). \<open>increase_batch_size\<close> returns the config with its batch size
  replaced by the smallest batch size profiled in the same resource bundle that
  is greater than or equal to floor(config.batch_size) + 1, all other fields
  unchanged, and returns the failure value (no exception) when no profiled
  batch size of the bundle is that large.
\<close>

theorem increase_batch_size_least:
  "increase_batch_size self config =
     (if {b \<in> mean_batch_size ` set (bundle_rows self config).
            of_int (\<lfloor>batch_size config\<rfloor> + 1) \<le> b} = {}
      then None
      else Some (config\<lparr>batch_size :=
             Min {b \<in> mean_batch_size ` set (bundle_rows self config).
                    of_int (\<lfloor>batch_size config\<rfloor> + 1) \<le> b}\<rparr>))"
proof -
  let ?S = "resource_bundle_matches (profile self) config"
  let ?t = "real_of_int (\<lfloor>batch_size config\<rfloor> + 1)"
  let ?lub = "filter (\<lambda>(i, b). b \<ge> ?t) (enumerate 0 (map mean_batch_size ?S))"
  let ?B = "{b \<in> mean_batch_size ` set (bundle_rows self config). ?t \<le> b}"
  have B: "snd ` set ?lub = ?B"
  proof -
    have "snd ` set ?lub = {b \<in> set (map mean_batch_size ?S). ?t \<le> b}"
    proof (intro set_eqI iffI)
      fix b assume "b \<in> snd ` set ?lub"
      then obtain k where "(k, b) \<in> set ?lub" by force
      from snd_in_set_filter_enumerate [OF this]
      show "b \<in> {b \<in> set (map mean_batch_size ?S). ?t \<le> b}" by simp
    next
      fix b assume "b \<in> {b \<in> set (map mean_batch_size ?S). ?t \<le> b}"
      then have b: "b \<in> set (map mean_batch_size ?S)" "?t \<le> b" by simp_all
      from b(1) obtain k where "k < length (map mean_batch_size ?S)"
        "map mean_batch_size ?S ! k = b"
        by (auto simp only: in_set_conv_nth)
      then have "(k, b) \<in> set (enumerate 0 (map mean_batch_size ?S))"
        by (simp add: in_set_enumerate_eq)
      with b(2) have "(k, b) \<in> set ?lub" by simp
      then show "b \<in> snd ` set ?lub" by force
    qed
    then show ?thesis by (simp add: rbm_set)
  qed
  show ?thesis
  proof (cases "idxmin ?lub")
    case None
    then have nil: "?lub = []" by (simp add: idxmin_None)
    have "?B = {}" using B unfolding nil by simp
    with None show ?thesis by (simp add: increase_batch_size_def Let_def)
  next
    case (Some k)
    from idxmin_value [OF Some] B have k: "(k, Min ?B) \<in> set ?lub" by simp
    then have ne: "?B \<noteq> {}" using B by force
    from k have "(k, Min ?B) \<in> set (enumerate 0 (map mean_batch_size ?S))" by simp
    then have kl: "k < length ?S" and "map mean_batch_size ?S ! k = Min ?B"
      by (simp_all add: in_set_enumerate_eq)
    then have "mean_batch_size (?S ! k) = Min ?B"
      by (simp only: nth_map [OF kl])
    with Some ne kl show ?thesis by (simp add: increase_batch_size_def Let_def)
  qed
qed

theorem increase_batch_size_least_witness:
  "increase_batch_size np_monotonic (mk_config (39 / 2) 1) = Some (mk_config 20 1)
   \<and> increase_batch_size np_monotonic (mk_config 40 1) = None"
proof -
  have rows: "mean_batch_size ` set (bundle_rows np_monotonic (mk_config b 1)) = {20, 10, 40}" for b
    by (simp add: np_monotonic_def example_defs)
  have fl: "real_of_int (\<lfloor>batch_size (mk_config (39 / 2) 1)\<rfloor> + 1) = 20"
    "real_of_int (\<lfloor>batch_size (mk_config 40 1)\<rfloor> + 1) = 41"
    by (simp_all add: mk_config_def)
  have s1: "{b \<in> {20, 10, 40 :: real}. 20 \<le> b} = {20, 40}" by auto
  have s2: "{b \<in> {20, 10, 40 :: real}. 41 \<le> b} = {}" by auto
  have c: "(mk_config (39 / 2) 1)\<lparr>batch_size := 20\<rparr> = mk_config 20 1"
    by (simp add: mk_config_def)
  show ?thesis
    using increase_batch_size_least [of np_monotonic "mk_config (39 / 2) 1"]
      increase_batch_size_least [of np_monotonic "mk_config 40 1"]
    unfolding rows fl s1 s2 by (simp add: c)
qed

section \<open>Path enumeration\<close>









lemma is_path_from_nodes:
  "is_path_from adj node p \<Longrightarrow> set p \<subseteq> insert SINK (dom adj)"
proof (induction adj node p rule: is_path_from.induct)
  case (1 adj node)
  then show ?case by simp
next
  case (2 adj node n)
  then show ?case by simp
next
  case (3 adj node n m rest)
  then show ?case by (auto split: option.splits)
qed


section \<open>Pipeline aggregation\<close>












end
